theory Spec2Isabelle
  imports Main
begin

section \<open>Data model\<close>

text \<open>
  The class \<^verbatim>\<open>AngularRethinkDBObservable<T extends IRethinkObject>\<close> of
  \<^verbatim>\<open>RethinkDBObservable.ts\<close> extends the \<^verbatim>\<open>BehaviorSubject<T[]>\<close> of rxjs 5. An
  instance is modelled as a record of its own fields and of the fields of its base class
  that its methods read and write. Methods take the instance and return the exception they
  throw, if any, together with the instance after the call: an exception does not undo the
  assignments made before it.
\<close>

text \<open>
  Modelled from the spec: \<^verbatim>\<open>IRethinkObject\<close> is declared in \<^verbatim>\<open>interfaces.ts\<close>, which is
  not among the sources. An entity is an application record whose only structural
  requirement is the identifier field \<^verbatim>\<open>id\<close>; the rest is an opaque payload.
\<close>

record 'p IRethinkObject =
  id_obj :: string
  payload :: 'p

text \<open>
  Modelled from the spec: \<^verbatim>\<open>IRethinkDBAPIConfig\<close> (also of \<^verbatim>\<open>interfaces.ts\<close>) holds
  \<^verbatim>\<open>host?\<close>, \<^verbatim>\<open>port?\<close>, \<^verbatim>\<open>database\<close> and \<^verbatim>\<open>api_key\<close>.
\<close>

record IRethinkDBAPIConfig =
  host :: "string option"
  port :: "string option"
  database :: string
  api_key :: string

text \<open>
  The parsed message of the change feed, line 41:
  \<^verbatim>\<open>{new_val: T, old_val: T, err?: string}\<close>. A field that is missing or \<^verbatim>\<open>null\<close> is
  \<open>None\<close>.
\<close>

record 'p change =
  new_val :: "'p IRethinkObject option"
  old_val :: "'p IRethinkObject option"
  err :: "string option"

datatype error =
  Thrown "string option"
  | ObjectUnsubscribedError
  | Error string
  | TypeError

datatype 'v notification = OnNext 'v | OnError "string option" | OnComplete

datatype socket = Connected | Disconnected

text \<open>
  Observers are sinks named by a number; \<open>delivered\<close> logs, in order, what each one has
  been sent. A sink records what it is sent and does not throw: it stands for an observer
  subscribed with all its callbacks. In rxjs 5 an observer subscribed without an error
  callback throws the error it is sent back into \<^verbatim>\<open>Subject.error\<close>, which then stops
  before it has served the observers after it; such observers are outside the model, and
  what is stated below about the observers served by an error holds for sinks only.
\<close>

record 'p AngularRethinkDBObservable =
  API_URL :: string
  rethinkdbConfig :: IRethinkDBAPIConfig
  table :: string
  socket :: "socket option"
  current_value :: "'p IRethinkObject list"
  hasError :: bool
  thrownError :: "string option"
  closed :: bool
  isStopped :: bool
  observers :: "nat list"
  delivered :: "(nat \<times> 'p IRethinkObject list notification) list"

type_synonym 'p outcome = "error option \<times> 'p AngularRethinkDBObservable"

section \<open>Truthiness\<close>

text \<open>
  \<^verbatim>\<open>!!x\<close> on an optional string: \<^verbatim>\<open>undefined\<close>, \<^verbatim>\<open>null\<close> and the empty string are
  falsy. On an optional object only \<^verbatim>\<open>undefined\<close> and \<^verbatim>\<open>null\<close> are, which is
  \<open>x \<noteq> None\<close>.
\<close>

definition truthy_str :: "string option \<Rightarrow> bool" where
  "truthy_str x = (case x of None \<Rightarrow> False | Some s \<Rightarrow> s \<noteq> [])"

section \<open>The constructor, lines 27 to 34\<close>

definition constructor :: "IRethinkDBAPIConfig \<Rightarrow> string \<Rightarrow> 'p AngularRethinkDBObservable" where
  "constructor cfg tbl =
     \<lparr> API_URL = (if truthy_str (host cfg) then the (host cfg) else [])
                   @ (if truthy_str (port cfg) then CHR '':'' # the (port cfg) else []),
       rethinkdbConfig = cfg,
       table = tbl,
       socket = None,
       current_value = [],
       hasError = False,
       thrownError = None,
       closed = False,
       isStopped = False,
       observers = [],
       delivered = [] \<rparr>"

section \<open>The inherited members of the subject\<close>

text \<open>
  The source calls \<^verbatim>\<open>this.value\<close>, \<^verbatim>\<open>this.next\<close> and \<^verbatim>\<open>this.error\<close> and reads
  \<^verbatim>\<open>this.hasError\<close>, \<^verbatim>\<open>this.thrownError\<close> and \<^verbatim>\<open>this.closed\<close>. They belong to
  \<^verbatim>\<open>Subject\<close> and \<^verbatim>\<open>BehaviorSubject\<close> of the rxjs 5 library (the import of line 1) and
  are modelled as the library defines them.
\<close>

text \<open>\<^verbatim>\<open>BehaviorSubject.getValue\<close>, the getter behind \<^verbatim>\<open>this.value\<close>.\<close>

definition getValue :: "'p AngularRethinkDBObservable \<Rightarrow> error + 'p IRethinkObject list" where
  "getValue this =
     (if hasError this then Inl (Thrown (thrownError this))
      else if closed this then Inl ObjectUnsubscribedError
      else Inr (current_value this))"

text \<open>
  \<^verbatim>\<open>BehaviorSubject.next(value) { super.next(this._value = value) }\<close>: the value is
  stored first; \<^verbatim>\<open>Subject.next\<close> throws on a closed subject and otherwise, unless
  stopped, sends the value to every observer.
\<close>

definition next_subject ::
  "'p AngularRethinkDBObservable \<Rightarrow> 'p IRethinkObject list \<Rightarrow> 'p outcome" where
  "next_subject this v =
     (let this1 = this\<lparr>current_value := v\<rparr> in
      if closed this1 then (Some ObjectUnsubscribedError, this1)
      else if \<not> isStopped this1
        then (None, this1\<lparr>delivered := delivered this1 @ map (\<lambda>k. (k, OnNext v)) (observers this1)\<rparr>)
      else (None, this1))"

text \<open>
  \<^verbatim>\<open>Subject.error(err)\<close>: throws on a closed subject; otherwise records the error, stops
  the subject, sends the error to every observer and drops them all.
\<close>

definition error_subject :: "'p AngularRethinkDBObservable \<Rightarrow> string \<Rightarrow> 'p outcome" where
  "error_subject this e =
     (if closed this then (Some ObjectUnsubscribedError, this)
      else (None, this\<lparr>hasError := True, thrownError := Some e, isStopped := True,
                       delivered := delivered this @ map (\<lambda>k. (k, OnError (Some e))) (observers this),
                       observers := []\<rparr>))"

section \<open>socketDataHandler, lines 40 to 73\<close>

text \<open>
  The model starts at the value that \<^verbatim>\<open>JSON.parse\<close> returns. The branches are those of
  the source, in its order.
\<close>

definition socketDataHandler ::
  "'p AngularRethinkDBObservable \<Rightarrow> 'p change \<Rightarrow> 'p outcome" where
  "socketDataHandler this data =
     (case getValue this of
        Inl e \<Rightarrow> (Some e, this)
      | Inr db \<Rightarrow>
          if old_val data = None \<and> new_val data = None \<and> length db > 0
            then next_subject this []
          else if truthy_str (err data)
            then error_subject this (the (err data))
          else if old_val data = None \<and> new_val data \<noteq> None
            then next_subject this (the (new_val data) # db)
          else if old_val data \<noteq> None \<and> new_val data \<noteq> None
                  \<and> length (filter (\<lambda>object. id_obj object = id_obj (the (new_val data))) db) > 0
            then next_subject this
                   (filter (\<lambda>object. id_obj object \<noteq> id_obj (the (old_val data))) db
                    @ [the (new_val data)])
          else if old_val data \<noteq> None \<and> new_val data = None
            then next_subject this
                   (filter (\<lambda>object. id_obj object \<noteq> id_obj (the (old_val data))) db)
          else (None, this))"

text \<open>
  The handler is bound to the table's channel (line 232) and runs once for each message,
  in arrival order; an exception it throws does not stop later messages from reaching it.
\<close>

fun feed :: "'p AngularRethinkDBObservable \<Rightarrow> 'p change list \<Rightarrow> 'p AngularRethinkDBObservable" where
  "feed this [] = this"
| "feed this (d # ds) = feed (snd (socketDataHandler this d)) ds"

section \<open>The wire shapes of the change events\<close>

text \<open>
  The cases of a change event, by the fields that are present: an insert carries only
  \<^verbatim>\<open>new_val\<close>, an update both values, a removal only \<^verbatim>\<open>old_val\<close>, a clear neither, a
  failure the error string \<^verbatim>\<open>err\<close>.
\<close>

definition Inserted :: "'p IRethinkObject \<Rightarrow> 'p change" where
  "Inserted v = \<lparr>new_val = Some v, old_val = None, err = None\<rparr>"

definition Updated :: "'p IRethinkObject \<Rightarrow> 'p IRethinkObject \<Rightarrow> 'p change" where
  "Updated old new = \<lparr>new_val = Some new, old_val = Some old, err = None\<rparr>"

definition Removed :: "'p IRethinkObject \<Rightarrow> 'p change" where
  "Removed old = \<lparr>new_val = None, old_val = Some old, err = None\<rparr>"

definition Cleared :: "'p change" where
  "Cleared = \<lparr>new_val = None, old_val = None, err = None\<rparr>"

definition Failed :: "string \<Rightarrow> 'p change" where
  "Failed e = \<lparr>new_val = None, old_val = None, err = Some e\<rparr>"

section \<open>Subscribing and unsubscribing, lines 227 to 253\<close>

text \<open>
  \<^verbatim>\<open>Observable.subscribe\<close> goes through \<^verbatim>\<open>Subject._trySubscribe\<close>, which throws on a
  closed subject, to the \<^verbatim>\<open>_subscribe\<close> of lines 227 to 245: it opens the socket and
  binds the handler, then calls \<^verbatim>\<open>BehaviorSubject._subscribe\<close>, which sends the recorded
  error to the new observer, or completes it on a stopped subject, or enrols it and sends
  it the current value. The registration handshake is answered asynchronously by the
  server and is outside the model.
\<close>

definition subscribe :: "'p AngularRethinkDBObservable \<Rightarrow> nat \<Rightarrow> 'p outcome" where
  "subscribe this k =
     (if closed this then (Some ObjectUnsubscribedError, this)
      else
        let this1 = this\<lparr>socket := Some Connected\<rparr> in
        if hasError this1
          then (None, this1\<lparr>delivered := delivered this1 @ [(k, OnError (thrownError this1))]\<rparr>)
        else if isStopped this1
          then (None, this1\<lparr>delivered := delivered this1 @ [(k, OnComplete)]\<rparr>)
        else (None, this1\<lparr>observers := observers this1 @ [k],
                           delivered := delivered this1 @ [(k, OnNext (current_value this1))]\<rparr>))"

text \<open>
  \<^verbatim>\<open>unsubscribe() { this.socket.disconnect(); super.unsubscribe(); }\<close>: without a
  socket the first call is a \<^verbatim>\<open>TypeError\<close>; \<^verbatim>\<open>Subject.unsubscribe\<close> stops and closes
  the subject and drops its observers.
\<close>

definition unsubscribe :: "'p AngularRethinkDBObservable \<Rightarrow> 'p outcome" where
  "unsubscribe this =
     (case socket this of
        None \<Rightarrow> (Some TypeError, this)
      | Some _ \<Rightarrow>
          (None, this\<lparr>socket := Some Disconnected, isStopped := True, closed := True,
                      observers := []\<rparr>))"

section \<open>The mutation commands, lines 106 to 221\<close>

text \<open>
  The argument of \<^verbatim>\<open>JSON.stringify\<close> in each command, field by field: \<^verbatim>\<open>db\<close>,
  \<^verbatim>\<open>table\<close>, \<^verbatim>\<open>api_key\<close>, then \<^verbatim>\<open>object\<close> (put), \<^verbatim>\<open>query\<close> (delete) or
  \<^verbatim>\<open>object\<close> and the optional \<^verbatim>\<open>query\<close> (update).
\<close>

record index_query =
  index_q :: string
  value_q :: string

datatype ('o, 'q) body =
  PutBody string string string 'o
  | DeleteBody string string string index_query
  | UpdateBody string string string 'o "'q option"

record ('o, 'q) request =
  url :: string
  http_method :: string
  body :: "('o, 'q) body"
  headers :: "(string \<times> string) list"

text \<open>
  What a command returns: \<^verbatim>\<open>Observable.throw(e)\<close>, made without any request, or
  \<^verbatim>\<open>Observable.fromPromise(fetch(...))\<close>, whose request is sent when the command runs.
\<close>

datatype ('o, 'q) command = Throw error | Fetch "('o, 'q) request"

fun network_calls :: "('o, 'q) command \<Rightarrow> ('o, 'q) request list" where
  "network_calls (Throw e) = []"
| "network_calls (Fetch r) = [r]"

definition json_headers :: "(string \<times> string) list" where
  "json_headers =
     [(''Accept'', ''application/json, text/plain, */*''),
      (''Content-Type'', ''application/json'')]"

definition push :: "'p AngularRethinkDBObservable \<Rightarrow> 'o \<Rightarrow> ('o, 'q) command" where
  "push this newObject =
     (if hasError this then Throw (Thrown (thrownError this))
      else if closed this then Throw (Error ''AngularRethinkDB has been closed.'')
      else Fetch \<lparr> url = API_URL this @ ''/api/put'',
                   http_method = ''POST'',
                   body = PutBody (database (rethinkdbConfig this)) (table this)
                            (api_key (rethinkdbConfig this)) newObject,
                   headers = json_headers \<rparr>)"

text \<open>
  The argument of \<^verbatim>\<open>remove\<close>: \<^verbatim>\<open>string | {indexName: string, indexValue: string}\<close>.
\<close>

record index_pair =
  indexName :: string
  indexValue :: string

datatype selector = Str string | Obj index_pair

definition remove :: "'p AngularRethinkDBObservable \<Rightarrow> selector \<Rightarrow> ('o, 'q) command" where
  "remove this index =
     (if hasError this then Throw (Thrown (thrownError this))
      else if closed this then Throw (Error ''AngularRethinkDB has been closed.'')
      else
        let body =
          (case index of
             Str s \<Rightarrow>
               DeleteBody (database (rethinkdbConfig this)) (table this)
                 (api_key (rethinkdbConfig this)) \<lparr>index_q = ''id'', value_q = s\<rparr>
           | Obj query \<Rightarrow>
               DeleteBody (database (rethinkdbConfig this)) (table this)
                 (api_key (rethinkdbConfig this))
                 \<lparr>index_q = indexName query, value_q = indexValue query\<rparr>)
        in Fetch \<lparr> url = API_URL this @ ''/api/delete'',
                     http_method = ''POST'',
                     body = body,
                     headers = json_headers \<rparr>)"

definition update ::
  "'p AngularRethinkDBObservable \<Rightarrow> 'p IRethinkObject \<Rightarrow> 'q option
     \<Rightarrow> ('p IRethinkObject, 'q) command" where
  "update this updatedObj query =
     (if hasError this then Throw (Thrown (thrownError this))
      else if closed this then Throw (Error ''AngularRethinkDB has been closed.'')
      else Fetch \<lparr> url = API_URL this @ ''/api/update'',
                   http_method = ''POST'',
                   body = UpdateBody (database (rethinkdbConfig this)) (table this)
                            (api_key (rethinkdbConfig this)) updatedObj query,
                   headers = json_headers \<rparr>)"

section \<open>Sequences of events\<close>

text \<open>
  The handler neither looks for an identifier before it prepends an insert nor compares
  the two identifiers of an update. A message is \<open>admissible\<close> for a snapshot when an
  insert brings an identifier the snapshot does not hold, and an update that finds the
  identifier of its new value in the snapshot carries the same identifier in its old value.
  A sequence is an admissible run when each message is admissible for the snapshot it
  arrives at.
\<close>

definition admissible :: "'p IRethinkObject list \<Rightarrow> 'p change \<Rightarrow> bool" where
  "admissible db data =
     (case (old_val data, new_val data) of
        (None, Some v) \<Rightarrow> id_obj v \<notin> id_obj ` set db
      | (Some old, Some new) \<Rightarrow> id_obj new \<in> id_obj ` set db \<longrightarrow> id_obj old = id_obj new
      | _ \<Rightarrow> True)"

fun admissible_run :: "'p AngularRethinkDBObservable \<Rightarrow> 'p change list \<Rightarrow> bool" where
  "admissible_run this [] = True"
| "admissible_run this (d # ds) =
     (admissible (current_value this) d \<and> admissible_run (snd (socketDataHandler this d)) ds)"

text \<open>
  The net effect of a sequence of messages on a set of identifiers, stated without the
  handler: an insert adds the identifier of its value, a removal takes the identifier of
  its value away, an update keeps the set, a message with neither value empties it.
\<close>

definition net_step :: "string set \<Rightarrow> 'p change \<Rightarrow> string set" where
  "net_step ids data =
     (case (old_val data, new_val data) of
        (None, Some v) \<Rightarrow> insert (id_obj v) ids
      | (Some old, None) \<Rightarrow> ids - {id_obj old}
      | (Some old, Some new) \<Rightarrow> ids
      | (None, None) \<Rightarrow> {})"

fun net_ids :: "string set \<Rightarrow> 'p change list \<Rightarrow> string set" where
  "net_ids ids [] = ids"
| "net_ids ids (d # ds) = net_ids (net_step ids d) ds"

section \<open>Example values\<close>

definition example_config :: IRethinkDBAPIConfig where
  "example_config =
     \<lparr>host = Some ''http://localhost'', port = Some ''3200'', database = ''app'',
      api_key = ''AAAA-BBBBB-CCCCC''\<rparr>"

definition example_entity :: "string \<Rightarrow> nat \<Rightarrow> nat IRethinkObject" where
  "example_entity i n = \<lparr>id_obj = i, payload = n\<rparr>"

text \<open>A fresh collection on the table \<^verbatim>\<open>todos\<close>, with one subscriber.\<close>

definition example_collection :: "nat AngularRethinkDBObservable" where
  "example_collection = snd (subscribe (constructor example_config ''todos'') 7)"

section \<open>Unfolding the handler\<close>

lemmas handler_defs =
  socketDataHandler_def getValue_def next_subject_def error_subject_def truthy_str_def Let_def

lemmas example_defs =
  example_collection_def example_config_def example_entity_def constructor_def subscribe_def

lemmas event_defs = Inserted_def Updated_def Removed_def Cleared_def Failed_def

section \<open>Filtering by identifier\<close>

lemma filter_id_absent:
  "i \<notin> id_obj ` set db \<Longrightarrow> filter (\<lambda>object. id_obj object = i) db = []"
  by (induction db) auto

lemma filter_id_present:
  "i \<in> id_obj ` set db \<Longrightarrow> filter (\<lambda>object. id_obj object = i) db \<noteq> []"
  by (induction db) auto

lemma filter_other_ids:
  "i \<notin> id_obj ` set db \<Longrightarrow> filter (\<lambda>object. id_obj object \<noteq> i) db = db"
  by (induction db) auto

lemma distinct_ids_filter:
  "distinct (map id_obj db) \<Longrightarrow> distinct (map id_obj (filter P db))"
  by (induction db) auto

lemma ids_filter_other:
  "id_obj ` {object \<in> set db. id_obj object \<noteq> i} = id_obj ` set db - {i}"
  by (induction db) auto

section \<open>Identifiers along an admissible run\<close>

lemma handler_keeps_ids_distinct:
  assumes "distinct (map id_obj (current_value this))"
    and "admissible (current_value this) d"
  shows "distinct (map id_obj (current_value (snd (socketDataHandler this d))))"
proof (cases "hasError this \<or> closed this")
  case True
  with assms(1) show ?thesis by (auto simp: handler_defs)
next
  case False
  note live = this
  show ?thesis
  proof (cases "old_val d")
    case None
    note old = this
    show ?thesis
    proof (cases "new_val d")
      case None
      with old live assms(1) show ?thesis by (simp add: handler_defs)
    next
      case (Some v)
      with old assms(2) have "id_obj v \<notin> id_obj ` set (current_value this)"
        by (simp add: admissible_def)
      with Some old live assms(1) show ?thesis by (simp add: handler_defs)
    qed
  next
    case (Some old)
    note old = this
    show ?thesis
    proof (cases "new_val d")
      case None
      with old live assms(1) show ?thesis
        by (simp add: handler_defs distinct_ids_filter)
    next
      case (Some new)
      show ?thesis
      proof (cases "id_obj new \<in> id_obj ` set (current_value this)")
        case True
        with Some old assms(2) have same: "id_obj old = id_obj new"
          by (simp add: admissible_def)
        from True have "filter (\<lambda>object. id_obj object = id_obj new) (current_value this) \<noteq> []"
          by (rule filter_id_present)
        with Some old live same assms(1) show ?thesis
          by (auto simp add: handler_defs distinct_ids_filter)
      next
        case False
        then have "filter (\<lambda>object. id_obj object = id_obj new) (current_value this) = []"
          by (rule filter_id_absent)
        with Some old live assms(1) show ?thesis
          by (simp add: handler_defs)
      qed
    qed
  qed
qed

lemma feed_keeps_ids_distinct:
  "distinct (map id_obj (current_value this)) \<Longrightarrow> admissible_run this ds
     \<Longrightarrow> distinct (map id_obj (current_value (feed this ds)))"
proof (induction ds arbitrary: this)
  case Nil
  then show ?case by simp
next
  case (Cons d ds)
  from Cons.prems have "distinct (map id_obj (current_value (snd (socketDataHandler this d))))"
    by (simp add: handler_keeps_ids_distinct)
  with Cons.prems Cons.IH show ?case by simp
qed

lemma handler_stays_live:
  assumes "\<not> hasError this" and "\<not> closed this" and "\<not> truthy_str (err d)"
  shows "\<not> hasError (snd (socketDataHandler this d)) \<and> \<not> closed (snd (socketDataHandler this d))"
  using assms by (simp add: socketDataHandler_def getValue_def next_subject_def Let_def)

lemma handler_net_step:
  assumes "\<not> hasError this" and "\<not> closed this" and "\<not> truthy_str (err d)"
    and "admissible (current_value this) d"
  shows "id_obj ` set (current_value (snd (socketDataHandler this d)))
         = net_step (id_obj ` set (current_value this)) d"
proof (cases "old_val d")
  case None
  note old = this
  show ?thesis
  proof (cases "new_val d")
    case None
    with old assms(1-3) show ?thesis
      by (simp add: socketDataHandler_def getValue_def next_subject_def Let_def net_step_def)
  next
    case (Some v)
    with old assms(1-3) show ?thesis
      by (simp add: socketDataHandler_def getValue_def next_subject_def Let_def net_step_def)
  qed
next
  case (Some old)
  note old = this
  show ?thesis
  proof (cases "new_val d")
    case None
    with old assms(1-3) show ?thesis
      by (simp add: socketDataHandler_def getValue_def next_subject_def Let_def net_step_def
            ids_filter_other)
  next
    case (Some new)
    show ?thesis
    proof (cases "id_obj new \<in> id_obj ` set (current_value this)")
      case True
      with Some old assms(4) have same: "id_obj old = id_obj new"
        by (simp add: admissible_def)
      from True have "filter (\<lambda>object. id_obj object = id_obj new) (current_value this) \<noteq> []"
        by (rule filter_id_present)
      with Some old same True assms(1-3) show ?thesis
        by (auto simp add: socketDataHandler_def getValue_def next_subject_def Let_def
              net_step_def ids_filter_other)
    next
      case False
      then have "filter (\<lambda>object. id_obj object = id_obj new) (current_value this) = []"
        by (rule filter_id_absent)
      with Some old assms(1-3) show ?thesis
        by (simp add: socketDataHandler_def getValue_def net_step_def)
    qed
  qed
qed

lemma feed_net_ids:
  "\<not> hasError this \<Longrightarrow> \<not> closed this \<Longrightarrow> \<forall>d \<in> set ds. \<not> truthy_str (err d)
     \<Longrightarrow> admissible_run this ds
     \<Longrightarrow> id_obj ` set (current_value (feed this ds))
         = net_ids (id_obj ` set (current_value this)) ds"
proof (induction ds arbitrary: this)
  case Nil
  then show ?case by simp
next
  case (Cons d ds)
  let ?next = "snd (socketDataHandler this d)"
  from Cons.prems have d: "\<not> truthy_str (err d)" "admissible (current_value this) d"
    by simp_all
  from Cons.prems d have live: "\<not> hasError ?next" "\<not> closed ?next"
    by (simp_all add: handler_stays_live)
  from Cons.prems d have step:
    "id_obj ` set (current_value ?next) = net_step (id_obj ` set (current_value this)) d"
    by (simp add: handler_net_step)
  from Cons.prems have rest: "\<forall>d \<in> set ds. \<not> truthy_str (err d)" "admissible_run ?next ds"
    by simp_all
  from Cons.IH [OF live rest] step show ?case by simp
qed

section \<open>Updates of an entity the snapshot holds\<close>

text \<open>
  C1. On a collection that holds a snapshot (no error recorded, not unsubscribed) in which
  some entity has the identifier of \<open>new\<close>, an \<open>Updated old new\<close> event is handled without
  an exception and the new snapshot is the previous one without the entities whose
  identifier is that of \<open>old\<close>, followed by \<open>new\<close>: the updated entity is placed at the
  end. The existence check is keyed on the identifier of \<open>new\<close>, the removal on that of
  \<open>old\<close>.
\<close>

theorem updated_appends:
  assumes "\<not> hasError this" and "\<not> closed this"
    and "id_obj new \<in> id_obj ` set (current_value this)"
  shows "fst (socketDataHandler this (Updated old new)) = None
         \<and> current_value (snd (socketDataHandler this (Updated old new)))
             = filter (\<lambda>object. id_obj object \<noteq> id_obj old) (current_value this) @ [new]"
proof -
  from assms(3) have "filter (\<lambda>object. id_obj object = id_obj new) (current_value this) \<noteq> []"
    by (rule filter_id_present)
  with assms(1,2) show ?thesis
    by (simp add: handler_defs Updated_def)
qed

theorem updated_appends_witness:
  "current_value
     (snd (socketDataHandler
             (feed example_collection
                [Inserted (example_entity ''b'' 2), Inserted (example_entity ''a'' 1)])
             (Updated (example_entity ''a'' 1) (example_entity ''a'' 5))))
   = [example_entity ''b'' 2, example_entity ''a'' 5]"
  using updated_appends
    [of "feed example_collection
           [Inserted (example_entity ''b'' 2), Inserted (example_entity ''a'' 1)]"
        "example_entity ''a'' 5" "example_entity ''a'' 1"]
  by (simp add: example_defs handler_defs event_defs)

text \<open>
  The updated entity does not come first. On the snapshot \<open>[a, b]\<close>, with \<open>a\<close> the entity
  \<open>(''a'', 1)\<close> and \<open>b\<close> the entity \<open>(''b'', 2)\<close>, the update of \<open>a\<close> to \<open>(''a'', 5)\<close> gives
  \<open>[b, (''a'', 5)]\<close>, which is not \<open>(''a'', 5)\<close> followed by the snapshot without \<open>a\<close>.
\<close>

theorem updated_front_counterexample:
  "current_value
     (snd (socketDataHandler
             (feed example_collection
                [Inserted (example_entity ''b'' 2), Inserted (example_entity ''a'' 1)])
             (Updated (example_entity ''a'' 1) (example_entity ''a'' 5))))
   \<noteq> example_entity ''a'' 5
       # filter (\<lambda>object. id_obj object \<noteq> id_obj (example_entity ''a'' 1))
           (current_value
              (feed example_collection
                 [Inserted (example_entity ''b'' 2), Inserted (example_entity ''a'' 1)]))"
  by (simp add: example_defs handler_defs event_defs)

section \<open>One entity for each identifier\<close>

text \<open>
  C2. Starting from the empty snapshot, after every admissible run of change events (each
  insert brings an identifier the snapshot does not hold when it arrives, each update that
  finds the identifier of its new value in the snapshot has the same identifier in its old
  value) the snapshot contains no two entities with the same identifier. When moreover the
  collection holds a snapshot and no event carries an error, the identifiers in the
  snapshot are exactly the net effect of the events: inserted, and not removed or cleared
  since.
\<close>

theorem one_entity_per_id:
  assumes "current_value this = []" and "admissible_run this ds"
  shows "distinct (map id_obj (current_value (feed this ds)))
         \<and> (\<not> hasError this \<and> \<not> closed this \<and> (\<forall>d \<in> set ds. \<not> truthy_str (err d))
              \<longrightarrow> id_obj ` set (current_value (feed this ds)) = net_ids {} ds)"
  using assms feed_net_ids [of this ds] by (simp add: feed_keeps_ids_distinct)

theorem one_entity_per_id_witness:
  "distinct (map id_obj (current_value
     (feed example_collection
        [Inserted (example_entity ''a'' 1), Inserted (example_entity ''b'' 2),
         Updated (example_entity ''a'' 1) (example_entity ''a'' 5),
         Removed (example_entity ''b'' 2), Inserted (example_entity ''c'' 3)])))
   \<and> id_obj ` set (current_value
     (feed example_collection
        [Inserted (example_entity ''a'' 1), Inserted (example_entity ''b'' 2),
         Updated (example_entity ''a'' 1) (example_entity ''a'' 5),
         Removed (example_entity ''b'' 2), Inserted (example_entity ''c'' 3)]))
     = {''a'', ''c''}
   \<and> net_ids {}
        [Inserted (example_entity ''a'' 1), Inserted (example_entity ''b'' 2),
         Updated (example_entity ''a'' 1) (example_entity ''a'' 5),
         Removed (example_entity ''b'' 2), Inserted (example_entity ''c'' 3)]
     = {''a'', ''c''}"
  using one_entity_per_id
    [of example_collection
        "[Inserted (example_entity ''a'' 1), Inserted (example_entity ''b'' 2),
          Updated (example_entity ''a'' 1) (example_entity ''a'' 5),
          Removed (example_entity ''b'' 2), Inserted (example_entity ''c'' 3)]"]
  by (auto simp add: example_defs handler_defs event_defs admissible_def net_step_def)

text \<open>
  An insert that is delivered twice leaves its entity in the snapshot twice: the handler
  prepends without looking for the identifier.
\<close>

theorem duplicate_ids_counterexample:
  "\<not> distinct (map id_obj (current_value
       (feed example_collection
          [Inserted (example_entity ''a'' 1), Inserted (example_entity ''a'' 1)])))"
  by (simp add: example_defs handler_defs event_defs)

section \<open>Errors pushed by the backend\<close>

text \<open>
  C3. A change event that carries an error is to end the stream with that error, leave the
  snapshot as it was, and stop every later event from changing it. The handler records the
  error (lines 50 and 51) when the event arrives on the empty snapshot. On a non-empty
  snapshot an event that carries only the error meets the clearing test of line 47, which
  comes first and does not look at \<^verbatim>\<open>err\<close>: on the snapshot \<open>[a]\<close> the event
  \<open>Failed ''boom''\<close> records no error and publishes the empty snapshot, and an insert that
  follows it is applied.
\<close>

theorem failed_on_nonempty_snapshot:
  "current_value (feed example_collection [Inserted (example_entity ''a'' 1)])
     = [example_entity ''a'' 1]
   \<and> \<not> hasError
       (snd (socketDataHandler (feed example_collection [Inserted (example_entity ''a'' 1)])
               (Failed ''boom'')))
   \<and> thrownError
       (snd (socketDataHandler (feed example_collection [Inserted (example_entity ''a'' 1)])
               (Failed ''boom''))) = None
   \<and> current_value
       (snd (socketDataHandler (feed example_collection [Inserted (example_entity ''a'' 1)])
               (Failed ''boom''))) = []
   \<and> current_value
       (feed (feed example_collection [Inserted (example_entity ''a'' 1)])
          [Failed ''boom'', Inserted (example_entity ''b'' 2)])
     = [example_entity ''b'' 2]
   \<and> hasError (snd (socketDataHandler example_collection (Failed ''boom'')))
   \<and> thrownError (snd (socketDataHandler example_collection (Failed ''boom''))) = Some ''boom''"
  by (simp add: example_defs handler_defs event_defs)

section \<open>Commands on a closed or failed collection\<close>

text \<open>
  C4. On a collection that is closed and has no error recorded, \<open>push\<close>, \<open>remove\<close> and
  \<open>update\<close> return the channel-closed error; on a collection with a recorded error they
  return that error, which is tested first; in either state none of them sends a request.
\<close>

theorem closed_or_failed_commands_fail:
  "(closed this \<and> \<not> hasError this \<longrightarrow>
      (push this newObject :: ('o, 'q) command) = Throw (Error ''AngularRethinkDB has been closed.'')
      \<and> (remove this index :: ('o, 'q) command) = Throw (Error ''AngularRethinkDB has been closed.'')
      \<and> update this updatedObj (query :: 'q option) = Throw (Error ''AngularRethinkDB has been closed.''))
   \<and> (hasError this \<longrightarrow>
      (push this newObject :: ('o, 'q) command) = Throw (Thrown (thrownError this))
      \<and> (remove this index :: ('o, 'q) command) = Throw (Thrown (thrownError this))
      \<and> update this updatedObj query = Throw (Thrown (thrownError this)))
   \<and> (closed this \<or> hasError this \<longrightarrow>
      network_calls (push this newObject :: ('o, 'q) command) = []
      \<and> network_calls (remove this index :: ('o, 'q) command) = []
      \<and> network_calls (update this updatedObj query) = [])"
  by (simp add: push_def remove_def update_def)

theorem closed_or_failed_commands_fail_witness:
  "(push (snd (unsubscribe example_collection)) (3::nat) :: (nat, unit) command)
     = Throw (Error ''AngularRethinkDB has been closed.'')
   \<and> (remove (snd (unsubscribe example_collection)) (Str ''x'') :: (nat, unit) command)
     = Throw (Error ''AngularRethinkDB has been closed.'')
   \<and> update (snd (unsubscribe example_collection)) (example_entity ''a'' 1) (None :: unit option)
     = Throw (Error ''AngularRethinkDB has been closed.'')
   \<and> (push (snd (socketDataHandler example_collection (Failed ''boom''))) (3::nat) :: (nat, unit) command)
     = Throw (Thrown (Some ''boom''))
   \<and> (remove (snd (socketDataHandler example_collection (Failed ''boom''))) (Str ''x'') :: (nat, unit) command)
     = Throw (Thrown (Some ''boom''))
   \<and> update (snd (socketDataHandler example_collection (Failed ''boom''))) (example_entity ''a'' 1) (None :: unit option)
     = Throw (Thrown (Some ''boom''))"
  using closed_or_failed_commands_fail
    [of "snd (unsubscribe example_collection)" "3::nat" "Str ''x''" "example_entity ''a'' 1" "None :: unit option"]
    closed_or_failed_commands_fail
    [of "snd (socketDataHandler example_collection (Failed ''boom''))" "3::nat" "Str ''x''"
        "example_entity ''a'' 1" "None :: unit option"]
  by (simp add: example_defs handler_defs event_defs unsubscribe_def)

section \<open>An insert followed by its removal\<close>

text \<open>
  C5. On a collection that holds a snapshot in which no entity has the identifier of \<open>v\<close>,
  \<open>Inserted v\<close> followed at once by \<open>Removed v\<close> gives back the original snapshot.
\<close>

theorem insert_then_remove:
  assumes "\<not> hasError this" and "\<not> closed this"
    and "id_obj v \<notin> id_obj ` set (current_value this)"
  shows "current_value (feed this [Inserted v, Removed v]) = current_value this"
proof -
  from assms(3)
  have "filter (\<lambda>object. id_obj object \<noteq> id_obj v) (current_value this) = current_value this"
    by (rule filter_other_ids)
  with assms(1,2) show ?thesis
    by (simp add: handler_defs Inserted_def Removed_def)
qed

theorem insert_then_remove_witness:
  "current_value
     (feed (feed example_collection [Inserted (example_entity ''b'' 2)])
        [Inserted (example_entity ''a'' 1), Removed (example_entity ''a'' 1)])
   = [example_entity ''b'' 2]"
  using insert_then_remove
    [of "feed example_collection [Inserted (example_entity ''b'' 2)]" "example_entity ''a'' 1"]
  by (simp add: example_defs handler_defs event_defs)

text \<open>
  The removal drops every entity with the identifier, also one the snapshot held before
  the insert: from the snapshot \<open>[a]\<close>, inserting \<open>a\<close> again and removing it leaves \<open>[]\<close>.
\<close>

theorem insert_then_remove_counterexample:
  "current_value
     (feed (feed example_collection [Inserted (example_entity ''a'' 1)])
        [Inserted (example_entity ''a'' 1), Removed (example_entity ''a'' 1)])
   \<noteq> current_value (feed example_collection [Inserted (example_entity ''a'' 1)])"
  by (simp add: example_defs handler_defs event_defs)

section \<open>The query of a delete request\<close>

text \<open>
  C6. On a collection that is neither failed nor closed, \<open>remove\<close> with a bare string
  \<open>s\<close> sends a request to \<^verbatim>\<open>/api/delete\<close> whose body holds the query with index
  \<^verbatim>\<open>id\<close> and value \<open>s\<close>; with a pair of \<open>indexName\<close> and \<open>indexValue\<close> the query holds
  that index and that value.
\<close>

theorem remove_sends_query:
  assumes "\<not> hasError this" and "\<not> closed this"
  shows "(remove this (Str s) :: ('o, 'q) command) =
           Fetch \<lparr> url = API_URL this @ ''/api/delete'', http_method = ''POST'',
                   body = DeleteBody (database (rethinkdbConfig this)) (table this)
                            (api_key (rethinkdbConfig this)) \<lparr>index_q = ''id'', value_q = s\<rparr>,
                   headers = json_headers \<rparr>
         \<and> (remove this (Obj \<lparr>indexName = n, indexValue = v\<rparr>) :: ('o, 'q) command) =
           Fetch \<lparr> url = API_URL this @ ''/api/delete'', http_method = ''POST'',
                   body = DeleteBody (database (rethinkdbConfig this)) (table this)
                            (api_key (rethinkdbConfig this)) \<lparr>index_q = n, value_q = v\<rparr>,
                   headers = json_headers \<rparr>"
  using assms by (simp add: remove_def)

theorem remove_sends_query_witness:
  "(remove example_collection (Str ''x'') :: (nat, unit) command) =
     Fetch \<lparr> url = ''http://localhost:3200/api/delete'', http_method = ''POST'',
             body = DeleteBody ''app'' ''todos'' ''AAAA-BBBBB-CCCCC'' \<lparr>index_q = ''id'', value_q = ''x''\<rparr>,
             headers = json_headers \<rparr>
   \<and> (remove example_collection (Obj \<lparr>indexName = ''email'', indexValue = ''a@b.com''\<rparr>)
        :: (nat, unit) command) =
     Fetch \<lparr> url = ''http://localhost:3200/api/delete'', http_method = ''POST'',
             body = DeleteBody ''app'' ''todos'' ''AAAA-BBBBB-CCCCC''
                      \<lparr>index_q = ''email'', value_q = ''a@b.com''\<rparr>,
             headers = json_headers \<rparr>"
  using remove_sends_query [of example_collection "''x''" "''email''" "''a@b.com''"]
  by (simp add: example_defs truthy_str_def)

section \<open>Inserts\<close>

text \<open>
  C7. On a collection that holds a snapshot (no error recorded, not unsubscribed), an
  \<open>Inserted v\<close> event is handled without an exception and the new snapshot is \<open>v\<close> followed
  by the previous snapshot, unchanged and in its previous order.
\<close>

theorem inserted_prepends:
  assumes "\<not> hasError this" and "\<not> closed this"
  shows "fst (socketDataHandler this (Inserted v)) = None
         \<and> current_value (snd (socketDataHandler this (Inserted v))) = v # current_value this"
  using assms by (simp add: handler_defs Inserted_def)

theorem inserted_prepends_witness:
  "current_value
     (feed example_collection [Inserted (example_entity ''a'' 1), Inserted (example_entity ''b'' 2)])
   = [example_entity ''b'' 2, example_entity ''a'' 1]"
proof -
  let ?s1 = "snd (socketDataHandler example_collection (Inserted (example_entity ''a'' 1)))"
  have live0: "\<not> hasError example_collection" "\<not> closed example_collection"
    by (simp_all add: example_defs)
  have live1: "\<not> hasError ?s1" "\<not> closed ?s1"
    by (simp_all add: example_defs handler_defs Inserted_def)
  have v0: "current_value example_collection = []"
    by (simp add: example_defs)
  from inserted_prepends [OF live0, of "example_entity ''a'' 1"]
       inserted_prepends [OF live1, of "example_entity ''b'' 2"] v0
  show ?thesis by simp
qed

section \<open>Clearing\<close>

text \<open>
  C8. On a collection that holds a snapshot, a \<open>Cleared\<close> event (neither value, no error)
  is handled without an exception and the snapshot after it is empty, whether it was empty
  before or not; so is the snapshot after a second \<open>Cleared\<close>.
\<close>

theorem cleared_empties:
  assumes "\<not> hasError this" and "\<not> closed this"
  shows "fst (socketDataHandler this Cleared) = None
         \<and> current_value (snd (socketDataHandler this Cleared)) = []
         \<and> current_value (feed this [Cleared, Cleared]) = []"
  using assms by (simp add: handler_defs Cleared_def)

theorem cleared_empties_witness:
  "current_value
     (snd (socketDataHandler
             (feed example_collection
                [Inserted (example_entity ''b'' 2), Inserted (example_entity ''a'' 1)])
             Cleared)) = []
   \<and> current_value (snd (socketDataHandler example_collection Cleared)) = []"
  using cleared_empties
    [of "feed example_collection
           [Inserted (example_entity ''b'' 2), Inserted (example_entity ''a'' 1)]"]
    cleared_empties [of example_collection]
  by (simp add: example_defs handler_defs event_defs)

section \<open>Updates of an entity the snapshot does not hold\<close>

text \<open>
  C9. On a collection that holds a snapshot in which no entity has the identifier of
  \<open>new\<close>, an \<open>Updated old new\<close> event changes nothing: the handler returns the collection
  as it was and publishes nothing.
\<close>

theorem updated_absent_noop:
  assumes "\<not> hasError this" and "\<not> closed this"
    and "id_obj new \<notin> id_obj ` set (current_value this)"
  shows "socketDataHandler this (Updated old new) = (None, this)"
proof -
  from assms(3) have "filter (\<lambda>object. id_obj object = id_obj new) (current_value this) = []"
    by (rule filter_id_absent)
  with assms(1,2) show ?thesis
    by (simp add: handler_defs Updated_def)
qed

theorem updated_absent_noop_witness:
  "socketDataHandler
     (feed example_collection [Inserted (example_entity ''b'' 2)])
     (Updated (example_entity ''a'' 1) (example_entity ''a'' 5))
   = (None, feed example_collection [Inserted (example_entity ''b'' 2)])"
  using updated_absent_noop
    [of "feed example_collection [Inserted (example_entity ''b'' 2)]"
        "example_entity ''a'' 5" "example_entity ''a'' 1"]
  by (simp add: example_defs handler_defs event_defs)

section \<open>An error together with a value\<close>

text \<open>
  C10. On a collection that holds a snapshot, a change event whose \<open>err\<close> is a non-empty
  string and which carries at least one of \<open>old_val\<close> and \<open>new_val\<close> is handled as an
  error and not as an insert, an update or a removal: the error is recorded and sent to the
  observers, no snapshot is published and the stored snapshot stays as it was.
\<close>

theorem err_with_value_raises:
  assumes "\<not> hasError this" and "\<not> closed this"
    and "err data = Some e" and "e \<noteq> []"
    and "old_val data \<noteq> None \<or> new_val data \<noteq> None"
  shows "socketDataHandler this data =
           (None, this\<lparr>hasError := True, thrownError := Some e, isStopped := True,
                       delivered := delivered this @ map (\<lambda>k. (k, OnError (Some e))) (observers this),
                       observers := []\<rparr>)
         \<and> current_value (snd (socketDataHandler this data)) = current_value this"
  using assms by (auto simp add: handler_defs)

theorem err_with_value_raises_witness:
  "hasError
     (snd (socketDataHandler
             (feed example_collection [Inserted (example_entity ''b'' 2)])
             \<lparr>new_val = Some (example_entity ''a'' 1), old_val = None, err = Some ''boom''\<rparr>))
   \<and> current_value
     (snd (socketDataHandler
             (feed example_collection [Inserted (example_entity ''b'' 2)])
             \<lparr>new_val = Some (example_entity ''a'' 1), old_val = None, err = Some ''boom''\<rparr>))
     = [example_entity ''b'' 2]"
  using err_with_value_raises
    [of "feed example_collection [Inserted (example_entity ''b'' 2)]"
        "\<lparr>new_val = Some (example_entity ''a'' 1), old_val = None, err = Some ''boom''\<rparr>"
        "''boom''"]
  by (simp add: example_defs handler_defs event_defs)

text \<open>
  The test of line 50 is \<^verbatim>\<open>!!data.err\<close>, and the empty string is falsy: an event with
  the error \<^verbatim>\<open>""\<close> and a new value is handled as an insert.
\<close>

theorem empty_err_counterexample:
  "\<not> hasError
       (snd (socketDataHandler example_collection
               \<lparr>new_val = Some (example_entity ''a'' 1), old_val = None, err = Some []\<rparr>))
   \<and> current_value
       (snd (socketDataHandler example_collection
               \<lparr>new_val = Some (example_entity ''a'' 1), old_val = None, err = Some []\<rparr>))
     = [example_entity ''a'' 1]
   \<and> current_value example_collection = []"
  by (simp add: example_defs handler_defs event_defs)

end
